theory Spec2Isabelle
  imports Complex_Main
begin

section \<open>ec2train.py: the training script of the inventory-monitoring project\<close>

text \<open>
  The script has five functions (\<open>train\<close>, \<open>test\<close>, \<open>net\<close>, \<open>create_data_loaders\<close>,
  \<open>main\<close>) and an argument-parsing block. The first four and the parsing are
  embedded; \<open>main\<close> only chains them and is not. The tensor library is an external
  collaborator: the model, the loss, the optimizer and the tensors are parameters of the
  embedding, so every statement about \<open>train\<close> and \<open>test\<close> holds for any behaviour
  of the library.

  Python floats are modelled as exact reals: sums, products and quotients are the
  mathematical ones, and a comparison never meets a NaN. The quotient of a tensor of
  counts by an integer is the true quotient, as in the current library.
\<close>

subsection \<open>Exceptions\<close>

datatype error =
    NameError string
  | TypeError string
  | KeyError string
  | AttributeError string
  | ZeroDivisionError
  | ShapeError nat nat
  | Raised string

text \<open>
  \<open>ShapeError got expected\<close> is the runtime error of a linear layer declared for
  \<open>expected\<close> input features that is applied to \<open>got\<close> features. \<open>Raised\<close> is any
  exception of a collaborator.
\<close>

subsection \<open>The module namespace\<close>

text \<open>
  Python resolves a free name of a function body when the body runs: in the module's
  globals, then in the builtins. \<open>pyobj\<close> is what a global name can be bound to, as far
  as \<open>train\<close> tells them apart: a class that can be called to build a progress
  report, or anything else.
\<close>

record 'l report_class =
  report_init :: "int \<Rightarrow> 'l"
  report_record :: "'l \<Rightarrow> real \<Rightarrow> real \<Rightarrow> 'l"

datatype 'l pyobj = Module | Function | Logger | Class "'l report_class"

type_synonym 'l namespace = "string \<rightharpoonup> 'l pyobj"

text \<open>
  The names the file binds at top level, in the order of lines 1 to 144: its imports,
  the logger and its five functions. No builtin is called \<open>Report\<close>, so the builtins
  are left out.
\<close>

definition module_globals :: "'l namespace" where
  "module_globals = map_of
     [(''np'', Module), (''torch'', Module), (''nn'', Module), (''optim'', Module),
      (''torchvision'', Module), (''models'', Module), (''transforms'', Module),
      (''copy'', Module), (''argparse'', Module), (''os'', Module),
      (''logging'', Module), (''sys'', Module), (''tqdm'', Function),
      (''ImageFile'', Module), (''logger'', Logger),
      (''train'', Function), (''test'', Function), (''net'', Function),
      (''create_data_loaders'', Function), (''main'', Function)]"

text \<open>Calling the object a global name is bound to, as \<open>Report(epochs)\<close> does.\<close>

definition call_global :: "'l namespace \<Rightarrow> string \<Rightarrow> error + 'l report_class" where
  "call_global G name =
     (case G name of
        None \<Rightarrow> Inl (NameError name)
      | Some (Class R) \<Rightarrow> Inr R
      | Some _ \<Rightarrow> Inl (TypeError name))"

subsection \<open>The tensor library as a parameter\<close>

text \<open>
  \<open>'m\<close> is the state of the model together with its optimizer (they share the
  parameters), \<open>'x\<close> a batch of inputs, \<open>'y\<close> a batch of labels, \<open>'o\<close> a batch of
  outputs, \<open>'d\<close> a device.
  \<^item> \<open>model_train\<close>, \<open>model_eval\<close>: \<open>model.train()\<close>, \<open>model.eval()\<close>;
  \<^item> \<open>inputs_to\<close>, \<open>labels_to\<close>: \<open>inputs.to(device)\<close>, \<open>labels.to(device)\<close>;
  \<^item> \<open>model_call\<close>: \<open>model(inputs)\<close>, which may raise and may change the state
    (running statistics in training mode);
  \<^item> \<open>size0\<close>: \<open>inputs.size(0)\<close>;
  \<^item> \<open>num_correct\<close>: \<open>torch.sum(preds == labels.data)\<close> for
    \<open>_, preds = torch.max(outputs, 1)\<close>.
\<close>

record ('m, 'x, 'y, 'o, 'd) torch_api =
  model_train :: "'m \<Rightarrow> 'm"
  model_eval :: "'m \<Rightarrow> 'm"
  inputs_to :: "'x \<Rightarrow> 'd \<Rightarrow> 'x"
  labels_to :: "'y \<Rightarrow> 'd \<Rightarrow> 'y"
  model_call :: "'m \<Rightarrow> 'x \<Rightarrow> error + ('o \<times> 'm)"
  size0 :: "'x \<Rightarrow> nat"
  num_correct :: "'o \<Rightarrow> 'y \<Rightarrow> nat"

text \<open>
  The loss function returns the value \<open>loss.item()\<close> or raises. The optimizer is the
  effect of \<open>optimizer.zero_grad(); loss.backward(); optimizer.step()\<close> on the state,
  for the batch the loss was computed from.
\<close>

type_synonym ('o, 'y) criterion = "'o \<Rightarrow> 'y \<Rightarrow> error + real"
type_synonym ('m, 'x, 'y) optimizer = "'m \<Rightarrow> 'x \<Rightarrow> 'y \<Rightarrow> 'm"

subsection \<open>The state of \<open>train\<close>\<close>

datatype phase = Train | Valid

text \<open>
  One \<open>phase_record\<close> per completed phase keeps the local variables of lines 35 to 56:
  the loss value, size and correct count of each batch in order, the two accumulators
  and the two epoch metrics.
\<close>

record phase_record =
  ph_epoch :: nat
  ph_phase :: phase
  ph_batches :: "(real \<times> nat \<times> nat) list"
  running_loss :: real
  running_corrects :: nat
  epoch_loss :: real
  epoch_acc :: real

text \<open>A line of \<open>logger.info\<close> in the second validation pass: its four arguments.\<close>

type_synonym log_line = "phase \<times> real \<times> real \<times> real"

record ('m, 'l) train_state =
  model :: 'm
  report :: 'l
  best_loss :: real
  loss_counter :: nat
  logged :: "log_line list"
  history :: "phase_record list"

subsection \<open>\<open>train\<close>, lines 23 to 77\<close>

text \<open>
  The batch loop of lines 38 to 53. The accumulator is the state of the model, the
  progress report, \<open>running_loss\<close>, \<open>running_corrects\<close> and the batches seen.
\<close>

fun batch_loop ::
  "('m, 'x, 'y, 'o, 'd) torch_api \<Rightarrow> ('o, 'y) criterion \<Rightarrow> ('m, 'x, 'y) optimizer \<Rightarrow>
   'l report_class \<Rightarrow> 'd \<Rightarrow> phase \<Rightarrow> nat \<Rightarrow> nat \<Rightarrow> ('x \<times> 'y) list \<Rightarrow>
   'm \<times> 'l \<times> real \<times> nat \<times> (real \<times> nat \<times> nat) list \<Rightarrow>
   error + 'm \<times> 'l \<times> real \<times> nat \<times> (real \<times> nat \<times> nat) list" where
  "batch_loop T crit opt R dev ph tot pos [] acc = Inr acc"
| "batch_loop T crit opt R dev ph tot pos ((inputs0, labels0) # rest) (m, lg, rl, rc, seen) =
     (let inputs = inputs_to T inputs0 dev;
          labels = labels_to T labels0 dev
      in case model_call T m inputs of
           Inl e \<Rightarrow> Inl e
         | Inr (outputs, m1) \<Rightarrow>
             (case crit outputs labels of
                Inl e \<Rightarrow> Inl e
              | Inr loss \<Rightarrow>
                  (let m2 = (if ph = Train then opt m1 inputs labels else m1);
                       lg2 = (if ph = Train
                              then report_record R lg (real (pos + 1) / real tot) loss
                              else lg);
                       n = size0 T inputs;
                       c = num_correct T outputs labels
                   in batch_loop T crit opt R dev ph tot (pos + 1) rest
                        (m2, lg2, rl + loss * real n, rc + c, seen @ [(loss, n, c)]))))"

text \<open>
  The second pass over the validation feeder, lines 63 to 71: the model is called on the
  batch as the feeder gives it, the loss is computed and dropped, and one line is logged
  per batch.
\<close>

fun relog_loop ::
  "('m, 'x, 'y, 'o, 'd) torch_api \<Rightarrow> ('o, 'y) criterion \<Rightarrow> log_line \<Rightarrow>
   ('x \<times> 'y) list \<Rightarrow> ('m, 'l) train_state \<Rightarrow> error + ('m, 'l) train_state" where
  "relog_loop T crit line [] s = Inr s"
| "relog_loop T crit line ((inputs, labels) # rest) s =
     (case model_call T (model s) inputs of
        Inl e \<Rightarrow> Inl e
      | Inr (outputs, m1) \<Rightarrow>
          (case crit outputs labels of
             Inl e \<Rightarrow> Inl e
           | Inr valid_loss \<Rightarrow>
               relog_loop T crit line rest
                 (s\<lparr>model := m1, logged := logged s @ [line]\<rparr>)))"

text \<open>
  Lines 58 to 62: the best loss and the stall counter after a validation phase.
\<close>

definition track_best :: "real \<Rightarrow> ('m, 'l) train_state \<Rightarrow> ('m, 'l) train_state" where
  "track_best el s =
     (if el < best_loss s then s\<lparr>best_loss := el\<rparr>
      else s\<lparr>loss_counter := loss_counter s + 1\<rparr>)"

text \<open>
  One phase of one epoch, lines 31 to 71. \<open>len(image_dataset[phase])\<close> is the number of
  batches of the feeder; dividing by it raises when the feeder is empty.
\<close>

definition run_phase ::
  "('m, 'x, 'y, 'o, 'd) torch_api \<Rightarrow> ('o, 'y) criterion \<Rightarrow> ('m, 'x, 'y) optimizer \<Rightarrow>
   'l report_class \<Rightarrow> 'd \<Rightarrow> (phase \<Rightarrow> ('x \<times> 'y) list) \<Rightarrow> nat \<Rightarrow> phase \<Rightarrow>
   ('m, 'l) train_state \<Rightarrow> error + ('m, 'l) train_state" where
  "run_phase T crit opt R dev image_dataset epoch ph s =
     (let m0 = (if ph = Train then model_train T (model s) else model_eval T (model s));
          feeder = image_dataset ph
      in case batch_loop T crit opt R dev ph (length feeder) 0 feeder
                (m0, report s, 0, 0, []) of
           Inl e \<Rightarrow> Inl e
         | Inr (m1, lg, rl, rc, seen) \<Rightarrow>
             if length feeder = 0 then Inl ZeroDivisionError
             else
               (let el = rl / real (length feeder);
                    ea = real rc / real (length feeder);
                    s1 = s\<lparr>model := m1, report := lg,
                           history := history s @
                             [\<lparr>ph_epoch = epoch, ph_phase = ph, ph_batches = seen,
                               running_loss = rl, running_corrects = rc,
                               epoch_loss = el, epoch_acc = ea\<rparr>]\<rparr>
                in if ph = Valid
                   then (let s2 = track_best el s1
                         in relog_loop T crit (ph, el, ea, best_loss s2) feeder s2)
                   else Inr s1))"

text \<open>The loop over \<open>['train', 'valid']\<close>, line 30.\<close>

fun phase_loop ::
  "('m, 'x, 'y, 'o, 'd) torch_api \<Rightarrow> ('o, 'y) criterion \<Rightarrow> ('m, 'x, 'y) optimizer \<Rightarrow>
   'l report_class \<Rightarrow> 'd \<Rightarrow> (phase \<Rightarrow> ('x \<times> 'y) list) \<Rightarrow> nat \<Rightarrow> phase list \<Rightarrow>
   ('m, 'l) train_state \<Rightarrow> error + ('m, 'l) train_state" where
  "phase_loop T crit opt R dev image_dataset epoch [] s = Inr s"
| "phase_loop T crit opt R dev image_dataset epoch (ph # phs) s =
     (case run_phase T crit opt R dev image_dataset epoch ph s of
        Inl e \<Rightarrow> Inl e
      | Inr s1 \<Rightarrow> phase_loop T crit opt R dev image_dataset epoch phs s1)"

text \<open>
  The loop over \<open>range(epochs)\<close>, lines 29 to 76, with its two breaks in the order of
  the source.
\<close>

fun epoch_loop ::
  "('m, 'x, 'y, 'o, 'd) torch_api \<Rightarrow> ('o, 'y) criterion \<Rightarrow> ('m, 'x, 'y) optimizer \<Rightarrow>
   'l report_class \<Rightarrow> 'd \<Rightarrow> (phase \<Rightarrow> ('x \<times> 'y) list) \<Rightarrow> nat list \<Rightarrow>
   ('m, 'l) train_state \<Rightarrow> error + ('m, 'l) train_state" where
  "epoch_loop T crit opt R dev image_dataset [] s = Inr s"
| "epoch_loop T crit opt R dev image_dataset (epoch # rest) s =
     (case phase_loop T crit opt R dev image_dataset epoch [Train, Valid] s of
        Inl e \<Rightarrow> Inl e
      | Inr s1 \<Rightarrow>
          if loss_counter s1 = 1 then Inr s1
          else if epoch = 0 then Inr s1
          else epoch_loop T crit opt R dev image_dataset rest s1)"

definition py_range :: "int \<Rightarrow> nat list" where
  "py_range n = [0 ..< nat n]"

text \<open>
  \<open>train\<close> returns the model; the embedding returns the whole final state, whose
  \<open>model\<close> field is the returned model. The namespace the function runs in is its first
  argument.
\<close>

definition train ::
  "'l namespace \<Rightarrow> ('m, 'x, 'y, 'o, 'd) torch_api \<Rightarrow> 'm \<Rightarrow> ('x \<times> 'y) list \<Rightarrow>
   ('x \<times> 'y) list \<Rightarrow> ('o, 'y) criterion \<Rightarrow> ('m, 'x, 'y) optimizer \<Rightarrow> int \<Rightarrow> 'd \<Rightarrow>
   error + ('m, 'l) train_state" where
  "train G T mdl train_loader validation_loader crit opt epochs dev =
     (let image_dataset = (\<lambda>ph. case ph of Train \<Rightarrow> train_loader | Valid \<Rightarrow> validation_loader)
      in case call_global G ''Report'' of
           Inl e \<Rightarrow> Inl e
         | Inr R \<Rightarrow>
             epoch_loop T crit opt R dev image_dataset (py_range epochs)
               \<lparr>model = mdl, report = report_init R epochs, best_loss = 1000000,
                loss_counter = 0, logged = [], history = []\<rparr>)"

subsection \<open>\<open>test\<close>, lines 79 to 96\<close>

text \<open>The loop of lines 84 to 91: the state of the model and the two accumulators.\<close>

fun test_loop ::
  "('m, 'x, 'y, 'o, 'd) torch_api \<Rightarrow> ('o, 'y) criterion \<Rightarrow> 'd \<Rightarrow> ('x \<times> 'y) list \<Rightarrow>
   'm \<times> real \<times> nat \<Rightarrow> error + 'm \<times> real \<times> nat" where
  "test_loop T crit dev [] acc = Inr acc"
| "test_loop T crit dev ((inputs0, labels0) # rest) (m, rl, rc) =
     (let inputs = inputs_to T inputs0 dev;
          labels = labels_to T labels0 dev
      in case model_call T m inputs of
           Inl e \<Rightarrow> Inl e
         | Inr (outputs, m1) \<Rightarrow>
             (case crit outputs labels of
                Inl e \<Rightarrow> Inl e
              | Inr loss \<Rightarrow>
                  test_loop T crit dev rest
                    (m1, rl + loss * real (size0 T inputs),
                     rc + num_correct T outputs labels)))"

text \<open>
  \<open>test\<close> returns nothing and logs two lines; the embedding returns the two logged
  values.
\<close>

record test_report =
  total_loss :: real
  total_acc :: real

definition test ::
  "('m, 'x, 'y, 'o, 'd) torch_api \<Rightarrow> 'm \<Rightarrow> ('x \<times> 'y) list \<Rightarrow> ('o, 'y) criterion \<Rightarrow> 'd \<Rightarrow>
   error + test_report" where
  "test T mdl test_loader crit dev =
     (case test_loop T crit dev test_loader (model_eval T mdl, 0, 0) of
        Inl e \<Rightarrow> Inl e
      | Inr (m1, rl, rc) \<Rightarrow>
          if length test_loader = 0 then Inl ZeroDivisionError
          else Inr \<lparr>total_loss = rl / real (length test_loader),
                    total_acc = real rc / real (length test_loader)\<rparr>)"

subsection \<open>\<open>net\<close>, lines 99 to 113\<close>

text \<open>
  A module of the network, as far as the head needs it: a linear layer with its declared
  input and output features and the \<open>requires_grad\<close> flag of its parameters, a
  rectifier, or a sequential container.
\<close>

datatype module = Linear nat nat bool | ReLU | Sequential "module list"

text \<open>\<open>nn.Linear(i, k)\<close> builds a layer whose parameters require gradients.\<close>

definition nn_Linear :: "nat \<Rightarrow> nat \<Rightarrow> module" where
  "nn_Linear i k = Linear i k True"

record network =
  backbone_requires_grad :: "bool list"
  fc :: module

fun freeze :: "module \<Rightarrow> module" where
  "freeze (Linear i k g) = Linear i k False"
| "freeze ReLU = ReLU"
| "freeze (Sequential ms) = Sequential (map freeze ms)"

fun in_features :: "module \<Rightarrow> error + nat" where
  "in_features (Linear i k g) = Inr i"
| "in_features ReLU = Inl (AttributeError ''in_features'')"
| "in_features (Sequential ms) = Inl (AttributeError ''in_features'')"

text \<open>
  \<open>net\<close> takes the pretrained network that \<open>models.resnet50(pretrained=True)\<close>
  returns.
\<close>

definition net :: "network \<Rightarrow> error + network" where
  "net resnet50 =
     (let mdl = \<lparr>backbone_requires_grad = map (\<lambda>g. False) (backbone_requires_grad resnet50),
                 fc = freeze (fc resnet50)\<rparr>
      in case in_features (fc mdl) of
           Inl e \<Rightarrow> Inl e
         | Inr n_features \<Rightarrow>
             Inr (mdl\<lparr>fc := Sequential
                    [nn_Linear n_features 128,
                     ReLU,
                     nn_Linear 128 32,
                     ReLU,
                     nn_Linear 128 5]\<rparr>))"

text \<open>
  What the library does with a module on an input of \<open>d\<close> features: a linear layer
  accepts only its declared number of input features, a rectifier keeps the shape, and a
  sequential container passes the output of each module to the next one.
\<close>

fun forward :: "module \<Rightarrow> nat \<Rightarrow> error + nat" where
  "forward (Linear i k g) d = (if d = i then Inr k else Inl (ShapeError d i))"
| "forward ReLU d = Inr d"
| "forward (Sequential []) d = Inr d"
| "forward (Sequential (m # ms)) d =
     (case forward m d of
        Inl e \<Rightarrow> Inl e
      | Inr d1 \<Rightarrow> forward (Sequential ms) d1)"

subsection \<open>\<open>create_data_loaders\<close>, lines 115 to 142\<close>









subsection \<open>Argument parsing, lines 172 to 180\<close>

text \<open>
  \<open>command_line\<close> is what the user passed, after the parser has split and converted
  it: a flag that was not given is \<open>None\<close>. \<open>os.environ[k]\<close> raises \<open>KeyError\<close> for
  a variable that is not set, and the default of a flag is evaluated when the flag is
  declared, before the command line is read.
\<close>

record command_line =
  cli_learning_rate :: "real option"
  cli_batch_size :: "int option"
  cli_epochs :: "int option"
  cli_data :: "string option"
  cli_output_dir :: "string option"

record args =
  arg_learning_rate :: "real option"
  arg_batch_size :: "int option"
  arg_epochs :: "int option"
  arg_data :: string
  arg_output_dir :: string

definition environ_get :: "(string \<rightharpoonup> string) \<Rightarrow> string \<Rightarrow> error + string" where
  "environ_get environ k = (case environ k of None \<Rightarrow> Inl (KeyError k) | Some v \<Rightarrow> Inr v)"

definition parse_args :: "(string \<rightharpoonup> string) \<Rightarrow> command_line \<Rightarrow> error + args" where
  "parse_args environ cl =
     (case environ_get environ ''dogImages'' of
        Inl e \<Rightarrow> Inl e
      | Inr data_default \<Rightarrow>
          (case environ_get environ ''TrainedModels/model.pth'' of
             Inl e \<Rightarrow> Inl e
           | Inr output_dir_default \<Rightarrow>
               Inr \<lparr>arg_learning_rate = cli_learning_rate cl,
                    arg_batch_size = cli_batch_size cl,
                    arg_epochs = cli_epochs cl,
                    arg_data = (case cli_data cl of None \<Rightarrow> data_default | Some v \<Rightarrow> v),
                    arg_output_dir =
                      (case cli_output_dir cl of None \<Rightarrow> output_dir_default | Some v \<Rightarrow> v)\<rparr>))"

subsection \<open>Vocabulary of the statements\<close>

text \<open>
  For the batches of a phase, each a loss value, a batch size and a count of correct
  predictions: the sum of loss value times batch size, and the sum of the counts.
\<close>

definition weighted_loss :: "(real \<times> nat \<times> nat) list \<Rightarrow> real" where
  "weighted_loss bs = sum_list (map (\<lambda>(l, n, c). l * real n) bs)"

definition correct_count :: "(real \<times> nat \<times> nat) list \<Rightarrow> nat" where
  "correct_count bs = sum_list (map (\<lambda>(l, n, c). c) bs)"

text \<open>
  The record of a phase over \<open>feeder\<close> has one entry per batch, its accumulators are
  the two sums, and its metrics are the accumulators divided by the number of batches.
\<close>

definition batch_count_metrics :: "('x \<times> 'y) list \<Rightarrow> phase_record \<Rightarrow> bool" where
  "batch_count_metrics feeder r \<longleftrightarrow>
     length (ph_batches r) = length feeder \<and>
     running_loss r = weighted_loss (ph_batches r) \<and>
     running_corrects r = correct_count (ph_batches r) \<and>
     epoch_loss r = running_loss r / real (length feeder) \<and>
     epoch_acc r = real (running_corrects r) / real (length feeder)"

text \<open>
  What a loop over a feeder reads from the collaborators, batch by batch, from the state
  \<open>m\<close> of the model: the loss value, the batch size and the number of correct
  predictions of each batch, or the first exception.
\<close>

fun observations ::
  "('m, 'x, 'y, 'o, 'd) torch_api \<Rightarrow> ('o, 'y) criterion \<Rightarrow> 'd \<Rightarrow> 'm \<Rightarrow> ('x \<times> 'y) list \<Rightarrow>
   error + (real \<times> nat \<times> nat) list" where
  "observations T crit dev m [] = Inr []"
| "observations T crit dev m ((x, y) # rest) =
     (case model_call T m (inputs_to T x dev) of
        Inl e \<Rightarrow> Inl e
      | Inr (out, m1) \<Rightarrow>
          (case crit out (labels_to T y dev) of
             Inl e \<Rightarrow> Inl e
           | Inr loss \<Rightarrow>
               (case observations T crit dev m1 rest of
                  Inl e \<Rightarrow> Inl e
                | Inr obs \<Rightarrow>
                    Inr ((loss, size0 T (inputs_to T x dev),
                          num_correct T out (labels_to T y dev)) # obs))))"


subsection \<open>Collaborators for concrete runs\<close>

text \<open>
  A feeder whose batches carry the loss value, the batch size and the number of correct
  predictions that the model and the loss function produce for them; the state of the
  model counts the optimizer steps, and the progress report keeps what was recorded.
\<close>

definition stub_api :: "(nat, real \<times> nat \<times> nat, unit, real \<times> nat \<times> nat, unit) torch_api" where
  "stub_api =
     \<lparr>model_train = (\<lambda>m. m), model_eval = (\<lambda>m. m),
      inputs_to = (\<lambda>x d. x), labels_to = (\<lambda>y d. y),
      model_call = (\<lambda>m x. Inr (x, m)),
      size0 = (\<lambda>x. fst (snd x)),
      num_correct = (\<lambda>out y. snd (snd out))\<rparr>"

definition stub_criterion :: "(real \<times> nat \<times> nat, unit) criterion" where
  "stub_criterion out y = Inr (fst out)"

definition stub_optimizer :: "(nat, real \<times> nat \<times> nat, unit) optimizer" where
  "stub_optimizer m x y = Suc m"

definition stub_Report :: "(real \<times> real) list report_class" where
  "stub_Report = \<lparr>report_init = (\<lambda>n. []), report_record = (\<lambda>l p v. l @ [(p, v)])\<rparr>"

definition patched_globals :: "(real \<times> real) list namespace" where
  "patched_globals = module_globals(''Report'' \<mapsto> Class stub_Report)"

text \<open>
  Feeders of a concrete run: two training batches with losses 1 and 3 and four samples
  each; a validation feeder whose epoch loss improves on the sentinel, and one whose
  epoch loss does not. \<open>demo_init\<close> is the state before the first epoch,
  \<open>demo_improved\<close> and \<open>demo_stalled\<close> are the states after an epoch over the two
  validation feeders.
\<close>

definition demo_train_feeder :: "((real \<times> nat \<times> nat) \<times> unit) list" where
  "demo_train_feeder = [((1, 4, 3), ()), ((3, 4, 2), ())]"

definition demo_valid_feeder :: "((real \<times> nat \<times> nat) \<times> unit) list" where
  "demo_valid_feeder = [((2, 4, 4), ())]"

definition stalled_valid_feeder :: "((real \<times> nat \<times> nat) \<times> unit) list" where
  "stalled_valid_feeder = [((2000000, 1, 0), ())]"

definition demo_feeders where
  "demo_feeders vf = (\<lambda>ph. case ph of Train \<Rightarrow> demo_train_feeder | Valid \<Rightarrow> vf)"

definition demo_init :: "(nat, (real \<times> real) list) train_state" where
  "demo_init = \<lparr>model = 0, report = [], best_loss = 1000000, loss_counter = 0,
                logged = [], history = []\<rparr>"

definition demo_improved :: "(nat, (real \<times> real) list) train_state" where
  "demo_improved =
     \<lparr>model = 2, report = [(1 / 2, 1), (1, 3)], best_loss = 8, loss_counter = 0,
      logged = [(Valid, 8, 4, 8)],
      history =
        [\<lparr>ph_epoch = 0, ph_phase = Train, ph_batches = [(1, 4, 3), (3, 4, 2)],
          running_loss = 16, running_corrects = 5, epoch_loss = 8, epoch_acc = 5 / 2\<rparr>,
         \<lparr>ph_epoch = 0, ph_phase = Valid, ph_batches = [(2, 4, 4)],
          running_loss = 8, running_corrects = 4, epoch_loss = 8, epoch_acc = 4\<rparr>]\<rparr>"

definition demo_stalled :: "nat \<Rightarrow> (nat, (real \<times> real) list) train_state" where
  "demo_stalled k =
     \<lparr>model = 2, report = [(1 / 2, 1), (1, 3)], best_loss = 1000000, loss_counter = 1,
      logged = [(Valid, 2000000, 0, 1000000)],
      history =
        [\<lparr>ph_epoch = k, ph_phase = Train, ph_batches = [(1, 4, 3), (3, 4, 2)],
          running_loss = 16, running_corrects = 5, epoch_loss = 8, epoch_acc = 5 / 2\<rparr>,
         \<lparr>ph_epoch = k, ph_phase = Valid, ph_batches = [(2000000, 1, 0)],
          running_loss = 2000000, running_corrects = 0, epoch_loss = 2000000,
          epoch_acc = 0\<rparr>]\<rparr>"







text \<open>
  A test feeder of three batches of eight samples with losses 0.1, 0.2 and 0.3, all
  predictions correct; a command line with no flag; an environment that sets both
  variables the parser reads.
\<close>

definition spec_test_feeder :: "((real \<times> nat \<times> nat) \<times> unit) list" where
  "spec_test_feeder = [((1 / 10, 8, 8), ()), ((2 / 10, 8, 8), ()), ((3 / 10, 8, 8), ())]"

definition no_flags :: command_line where
  "no_flags = \<lparr>cli_learning_rate = None, cli_batch_size = None, cli_epochs = None,
               cli_data = None, cli_output_dir = None\<rparr>"

definition demo_environ :: "string \<rightharpoonup> string" where
  "demo_environ = [''dogImages'' \<mapsto> ''/data'', ''TrainedModels/model.pth'' \<mapsto> ''/out/model.pth'']"

text \<open>The pretrained network, as far as \<open>net\<close> reads it: its head has 2048 inputs.\<close>

definition resnet50_pretrained :: network where
  "resnet50_pretrained =
     \<lparr>backbone_requires_grad = [True, True, True], fc = Linear 2048 1000 True\<rparr>"

section \<open>Properties\<close>

subsection \<open>The loops of \<open>train\<close>\<close>

lemma weighted_loss_snoc: "weighted_loss (bs @ [(l, n, c)]) = weighted_loss bs + l * real n"
  by (simp add: weighted_loss_def)

lemma correct_count_snoc: "correct_count (bs @ [(l, n, c)]) = correct_count bs + c"
  by (simp add: correct_count_def)

lemma batch_loop_acc:
  "batch_loop T crit opt R dev ph tot pos feeder (m, lg, rl, rc, seen) = Inr (m', lg', rl', rc', seen')
   \<Longrightarrow> length seen' = length seen + length feeder \<and>
       rl' - weighted_loss seen' = rl - weighted_loss seen \<and>
       int rc' - int (correct_count seen') = int rc - int (correct_count seen)"
proof (induction feeder arbitrary: pos m lg rl rc seen)
  case Nil
  then show ?case by simp
next
  case (Cons b feeder)
  obtain x y where b: "b = (x, y)" by (cases b)
  from Cons.prems b show ?case
    by (auto simp: Let_def weighted_loss_snoc correct_count_snoc
             split: sum.splits prod.splits dest!: Cons.IH)
qed

lemma relog_loop_keeps:
  "relog_loop T crit line feeder s = Inr s' \<Longrightarrow>
   best_loss s' = best_loss s \<and> loss_counter s' = loss_counter s \<and> history s' = history s"
proof (induction feeder arbitrary: s)
  case Nil
  then show ?case by simp
next
  case (Cons b feeder)
  obtain x y where b: "b = (x, y)" by (cases b)
  from Cons.prems b show ?case
    by (auto split: sum.splits prod.splits dest!: Cons.IH)
qed


lemma weighted_loss_Nil: "weighted_loss [] = 0"
  by (simp add: weighted_loss_def)

lemma correct_count_Nil: "correct_count [] = 0"
  by (simp add: correct_count_def)

lemma run_phase_Inr:
  assumes "run_phase T crit opt R dev ds epoch ph s = Inr s'"
  shows "\<exists>r. history s' = history s @ [r] \<and> ph_epoch r = epoch \<and> ph_phase r = ph \<and>
             batch_count_metrics (ds ph) r \<and> ds ph \<noteq> [] \<and>
             (ph = Train \<longrightarrow> best_loss s' = best_loss s \<and> loss_counter s' = loss_counter s) \<and>
             (ph = Valid \<longrightarrow>
                best_loss s' = (if epoch_loss r < best_loss s then epoch_loss r else best_loss s) \<and>
                loss_counter s' =
                  (if epoch_loss r < best_loss s then loss_counter s else loss_counter s + 1))"
proof -
  let ?m0 = "if ph = Train then model_train T (model s) else model_eval T (model s)"
  obtain m1 lg rl rc seen where
    bl: "batch_loop T crit opt R dev ph (length (ds ph)) 0 (ds ph) (?m0, report s, 0, 0, [])
           = Inr (m1, lg, rl, rc, seen)"
    using assms by (auto simp: run_phase_def Let_def split: sum.splits)
  have ne: "ds ph \<noteq> []"
    using assms bl by (auto simp: run_phase_def Let_def split: if_splits)
  from batch_loop_acc [OF bl]
  have acc: "length seen = length (ds ph)" "rl = weighted_loss seen" "rc = correct_count seen"
    by (simp_all add: weighted_loss_Nil correct_count_Nil)
  define r where "r = \<lparr>ph_epoch = epoch, ph_phase = ph, ph_batches = seen,
     running_loss = rl, running_corrects = rc,
     epoch_loss = rl / real (length (ds ph)), epoch_acc = real rc / real (length (ds ph))\<rparr>"
  define s1 where "s1 = s\<lparr>model := m1, report := lg, history := history s @ [r]\<rparr>"
  have m: "batch_count_metrics (ds ph) r"
    using acc by (simp add: batch_count_metrics_def r_def)
  have ids: "ph_epoch r = epoch" "ph_phase r = ph" "epoch_loss r = rl / real (length (ds ph))"
    by (simp_all add: r_def)
  show ?thesis
  proof (cases ph)
    case Train
    then have "s' = s1"
      using assms bl ne by (simp add: run_phase_def Let_def s1_def r_def)
    then show ?thesis
      using m ids ne Train by (intro exI [of _ r]) (simp add: s1_def)
  next
    case Valid
    then have rl: "relog_loop T crit (ph, epoch_loss r, epoch_acc r,
                     best_loss (track_best (epoch_loss r) s1)) (ds ph)
                     (track_best (epoch_loss r) s1) = Inr s'"
      using assms bl ne by (simp add: run_phase_def Let_def s1_def r_def)
    from relog_loop_keeps [OF rl] show ?thesis
      using m ids ne Valid by (intro exI [of _ r]) (simp add: s1_def track_best_def)
  qed
qed

lemma phase_loop_epoch:
  assumes "phase_loop T crit opt R dev ds epoch [Train, Valid] s = Inr s'"
  shows "\<exists>rt rv. history s' = history s @ [rt, rv] \<and>
           ph_epoch rt = epoch \<and> ph_phase rt = Train \<and> batch_count_metrics (ds Train) rt \<and>
           ph_epoch rv = epoch \<and> ph_phase rv = Valid \<and> batch_count_metrics (ds Valid) rv \<and>
           best_loss s' = (if epoch_loss rv < best_loss s then epoch_loss rv else best_loss s) \<and>
           loss_counter s' =
             (if epoch_loss rv < best_loss s then loss_counter s else loss_counter s + 1)"
proof -
  obtain s1 where t: "run_phase T crit opt R dev ds epoch Train s = Inr s1"
    and v: "run_phase T crit opt R dev ds epoch Valid s1 = Inr s'"
    using assms by (auto split: sum.splits)
  from run_phase_Inr [OF t] obtain rt where
    rt: "history s1 = history s @ [rt]" "ph_epoch rt = epoch" "ph_phase rt = Train"
        "batch_count_metrics (ds Train) rt" "best_loss s1 = best_loss s"
        "loss_counter s1 = loss_counter s"
    by auto
  from run_phase_Inr [OF v] obtain rv where
    rv: "history s' = history s1 @ [rv]" "ph_epoch rv = epoch" "ph_phase rv = Valid"
        "batch_count_metrics (ds Valid) rv"
        "best_loss s' = (if epoch_loss rv < best_loss s1 then epoch_loss rv else best_loss s1)"
        "loss_counter s' =
           (if epoch_loss rv < best_loss s1 then loss_counter s1 else loss_counter s1 + 1)"
    by auto
  show ?thesis
    using rt rv by (intro exI [of _ rt] exI [of _ rv]) simp
qed

lemma epoch_loop_first:
  "epoch_loop T crit opt R dev ds (0 # rest) s = phase_loop T crit opt R dev ds 0 [Train, Valid] s"
  by (simp split: sum.splits)

lemma py_range_pos: "1 \<le> n \<Longrightarrow> py_range n = 0 # [1 ..< nat n]"
  by (simp add: py_range_def upt_conv_Cons)

lemma py_range_nonpos: "n \<le> 0 \<Longrightarrow> py_range n = []"
  by (simp add: py_range_def)

lemma call_global_Class: "G name = Some (Class R) \<Longrightarrow> call_global G name = Inr R"
  by (simp add: call_global_def)

lemma train_one_epoch:
  assumes "G ''Report'' = Some (Class R)" and "1 \<le> epochs"
  shows "train G T mdl train_loader validation_loader crit opt epochs dev =
         phase_loop T crit opt R dev
           (\<lambda>ph. case ph of Train \<Rightarrow> train_loader | Valid \<Rightarrow> validation_loader) 0 [Train, Valid]
           \<lparr>model = mdl, report = report_init R epochs, best_loss = 1000000,
            loss_counter = 0, logged = [], history = []\<rparr>"
proof -
  have c: "call_global G ''Report'' = Inr R"
    using assms(1) by (simp add: call_global_def)
  show ?thesis
    unfolding train_def Let_def c py_range_pos [OF assms(2)]
    by (simp only: sum.case epoch_loop_first)
qed

lemma train_no_epoch:
  assumes "G ''Report'' = Some (Class R)" and "epochs \<le> 0"
  shows "train G T mdl train_loader validation_loader crit opt epochs dev =
         Inr \<lparr>model = mdl, report = report_init R epochs, best_loss = 1000000,
              loss_counter = 0, logged = [], history = []\<rparr>"
proof -
  have c: "call_global G ''Report'' = Inr R"
    using assms(1) by (simp add: call_global_def)
  show ?thesis
    unfolding train_def Let_def c py_range_nonpos [OF assms(2)]
    by simp
qed

lemma epoch_loop_step:
  "phase_loop T crit opt R dev ds epoch [Train, Valid] s = Inr s1 \<Longrightarrow>
   epoch_loop T crit opt R dev ds (epoch # rest) s =
     (if loss_counter s1 = 1 then Inr s1
      else if epoch = 0 then Inr s1
      else epoch_loop T crit opt R dev ds rest s1)"
  by (simp only: epoch_loop.simps sum.case)

lemma epoch_loop_raises:
  "phase_loop T crit opt R dev ds epoch [Train, Valid] s = Inl e \<Longrightarrow>
   epoch_loop T crit opt R dev ds (epoch # rest) s = Inl e"
  by (simp only: epoch_loop.simps sum.case)

lemma epoch_loop_mono:
  "epoch_loop T crit opt R dev ds es s = Inr s' \<Longrightarrow> loss_counter s \<le> loss_counter s'"
proof (induction es arbitrary: s)
  case Nil
  then show ?case by simp
next
  case (Cons epoch es)
  show ?case
  proof (cases "phase_loop T crit opt R dev ds epoch [Train, Valid] s")
    case (Inl e)
    from epoch_loop_raises [OF Inl] Cons.prems show ?thesis by simp
  next
    case (Inr s1)
    from phase_loop_epoch [OF Inr] have le: "loss_counter s \<le> loss_counter s1"
      by (auto split: if_splits)
    show ?thesis
    proof (cases "loss_counter s1 = 1 \<or> epoch = 0")
      case True
      then have "s' = s1"
        using Cons.prems epoch_loop_step [OF Inr, of es] by (auto split: if_splits)
      then show ?thesis using le by simp
    next
      case False
      then have "epoch_loop T crit opt R dev ds es s1 = Inr s'"
        using Cons.prems epoch_loop_step [OF Inr, of es] by simp
      from Cons.IH [OF this] le show ?thesis by simp
    qed
  qed
qed

lemma train_Inr_bound:
  "train G T mdl train_loader validation_loader crit opt epochs dev = Inr res \<Longrightarrow>
   \<exists>R. G ''Report'' = Some (Class R)"
  by (cases "G ''Report''"; cases "the (G ''Report'')")
     (simp_all add: train_def Let_def call_global_def)

lemma batch_loop_returns:
  assumes c: "\<forall>m x. \<exists>out m1. model_call T m x = Inr (out, m1)"
    and l: "\<forall>out y. \<exists>v. crit out y = Inr v"
  shows "\<exists>acc'. batch_loop T crit opt R dev ph tot pos feeder acc = Inr acc'"
proof (induction feeder arbitrary: pos acc)
  case Nil
  show ?case by (rule exI [of _ acc]) simp
next
  case (Cons b feeder)
  obtain x y where b: "b = (x, y)" by (cases b)
  obtain m lg rl rc seen where acc: "acc = (m, lg, rl, rc, seen)"
    by (cases acc rule: prod_cases5)
  obtain out m1 where c1: "model_call T m (inputs_to T x dev) = Inr (out, m1)"
    using c by blast
  obtain v where l1: "crit out (labels_to T y dev) = Inr v"
    using l by blast
  show ?case
    using Cons.IH by (simp add: b acc c1 l1 Let_def)
qed

lemma relog_loop_returns:
  assumes c: "\<forall>m x. \<exists>out m1. model_call T m x = Inr (out, m1)"
    and l: "\<forall>out y. \<exists>v. crit out y = Inr v"
  shows "\<exists>s'. relog_loop T crit line feeder s = Inr s'"
proof (induction feeder arbitrary: s)
  case Nil
  then show ?case by simp
next
  case (Cons b feeder)
  obtain x y where b: "b = (x, y)" by (cases b)
  obtain out m1 where c1: "model_call T (model s) x = Inr (out, m1)"
    using c by blast
  obtain v where l1: "crit out y = Inr v"
    using l by blast
  show ?case
    using Cons.IH by (simp add: b c1 l1)
qed

lemma run_phase_returns:
  assumes c: "\<forall>m x. \<exists>out m1. model_call T m x = Inr (out, m1)"
    and l: "\<forall>out y. \<exists>v. crit out y = Inr v"
    and ne: "ds ph \<noteq> []"
  shows "\<exists>s'. run_phase T crit opt R dev ds epoch ph s = Inr s'"
proof -
  from batch_loop_returns [OF c l] obtain acc' where
    b: "batch_loop T crit opt R dev ph (length (ds ph)) 0 (ds ph)
          (if ph = Train then model_train T (model s) else model_eval T (model s),
           report s, 0, 0, []) = Inr acc'"
    by blast
  obtain m1 lg rl rc seen where acc: "acc' = (m1, lg, rl, rc, seen)"
    by (cases acc' rule: prod_cases5)
  show ?thesis
  proof (cases ph)
    case Train
    then show ?thesis
      using ne b by (simp add: run_phase_def Let_def acc)
  next
    case Valid
    then show ?thesis
      using ne b relog_loop_returns [OF c l]
      by (simp add: run_phase_def Let_def acc)
  qed
qed

lemma train_returns:
  assumes g: "G ''Report'' = Some (Class R)"
    and c: "\<forall>m x. \<exists>out m1. model_call T m x = Inr (out, m1)"
    and l: "\<forall>out y. \<exists>v. crit out y = Inr v"
    and tne: "train_loader \<noteq> []" and vne: "validation_loader \<noteq> []"
  shows "\<exists>res. train G T mdl train_loader validation_loader crit opt epochs dev = Inr res"
proof (cases "1 \<le> epochs")
  case True
  define ds where
    "ds = (\<lambda>ph. case ph of Train \<Rightarrow> train_loader | Valid \<Rightarrow> validation_loader)"
  define s0 where
    "s0 = \<lparr>model = mdl, report = report_init R epochs, best_loss = 1000000,
            loss_counter = 0, logged = [], history = []\<rparr>"
  have "ds Train \<noteq> []" "ds Valid \<noteq> []"
    using tne vne by (simp_all add: ds_def)
  from run_phase_returns [where ds = ds and ph = Train, OF c l this(1)] obtain s1 where
    t: "run_phase T crit opt R dev ds 0 Train s0 = Inr s1" by blast
  from run_phase_returns [where ds = ds and ph = Valid, OF c l \<open>ds Valid \<noteq> []\<close>]
  obtain s2 where
    v: "run_phase T crit opt R dev ds 0 Valid s1 = Inr s2" by blast
  have "phase_loop T crit opt R dev ds 0 [Train, Valid] s0 = Inr s2"
    by (simp add: t v)
  then show ?thesis
    unfolding train_one_epoch [where G = G and R = R, OF g True] ds_def s0_def by blast
next
  case False
  then have e: "epochs \<le> 0" by simp
  show ?thesis
    unfolding train_no_epoch [where G = G and R = R, OF g e] by blast
qed

lemma train_empty_feeder:
  assumes "G ''Report'' = Some (Class R)" and "1 \<le> epochs"
  shows "train G T mdl [] validation_loader crit opt epochs dev = Inl ZeroDivisionError"
  unfolding train_one_epoch [where G = G and R = R, OF assms]
  by (simp add: run_phase_def)







subsection \<open>Concrete runs\<close>

lemmas stub_defs = stub_api_def stub_criterion_def stub_optimizer_def stub_Report_def
  demo_train_feeder_def demo_valid_feeder_def stalled_valid_feeder_def demo_feeders_def
  demo_init_def demo_improved_def demo_stalled_def

lemma patched_Report: "patched_globals ''Report'' = Some (Class stub_Report)"
  by (simp add: patched_globals_def)

lemma demo_train_improved:
  "train patched_globals stub_api 0 demo_train_feeder demo_valid_feeder
     stub_criterion stub_optimizer 3 () = Inr demo_improved"
  by (simp add: train_def call_global_def patched_globals_def py_range_def upt_conv_Cons
        run_phase_def track_best_def Let_def stub_defs)

lemma demo_train_stalled:
  "train patched_globals stub_api 0 demo_train_feeder stalled_valid_feeder
     stub_criterion stub_optimizer 3 () = Inr (demo_stalled 0)"
  by (simp add: train_def call_global_def patched_globals_def py_range_def upt_conv_Cons
        run_phase_def track_best_def Let_def stub_defs)

lemma demo_train_no_epoch:
  "train patched_globals stub_api 0 demo_train_feeder demo_valid_feeder
     stub_criterion stub_optimizer 0 () = Inr demo_init"
  by (simp add: train_def call_global_def patched_globals_def py_range_def stub_defs)

lemma demo_epoch_stalled:
  "phase_loop stub_api stub_criterion stub_optimizer stub_Report ()
     (demo_feeders stalled_valid_feeder) k [Train, Valid] demo_init = Inr (demo_stalled k)"
  by (simp add: run_phase_def track_best_def Let_def stub_defs)

lemma demo_epoch_improved:
  "phase_loop stub_api stub_criterion stub_optimizer stub_Report ()
     (demo_feeders demo_valid_feeder) 0 [Train, Valid] demo_init = Inr demo_improved"
  by (simp add: run_phase_def track_best_def Let_def stub_defs)

lemma demo_loop_stalled:
  "epoch_loop stub_api stub_criterion stub_optimizer stub_Report ()
     (demo_feeders stalled_valid_feeder) [1, 2] demo_init = Inr (demo_stalled 1)"
  by (simp add: run_phase_def track_best_def Let_def stub_defs)








subsection \<open>The epoch loop\<close>

text \<open>
  The statements about \<open>train\<close> below are about the calls that return, in any
  namespace. A call returns only in a namespace that binds \<open>Report\<close> to a class
  (\<open>train_Inr_bound\<close>), and it does return there when the model and the loss function
  do not raise and both feeders have a batch (\<open>train_returns\<close>). In the module as
  written \<open>Report\<close> is not bound (see the last subsection).
\<close>

text \<open>
  Claim C1. A call of \<open>train\<close> with \<open>epochs\<close> at least 1 that returns has run at most
  2 epochs: its completed phases are exactly the training and the validation phase of
  epoch 0, so the loop stops after the validation phase of epoch 0. Independently, for
  any epoch index \<open>k\<close> and any remaining epochs, when the stall counter is 1 after the
  epoch's two phases the loop stops with the state of that epoch.
\<close>

theorem train_at_most_two_epochs:
  "(1 \<le> epochs \<and>
    train G T mdl train_loader validation_loader crit opt epochs dev = Inr res \<longrightarrow>
      card (ph_epoch ` set (history res)) \<le> 2 \<and>
      map (\<lambda>r. (ph_epoch r, ph_phase r)) (history res) = [(0, Train), (0, Valid)]) \<and>
   (phase_loop T' crit' opt' R' dev' ds k [Train, Valid] s = Inr s1 \<and> loss_counter s1 = 1 \<longrightarrow>
      epoch_loop T' crit' opt' R' dev' ds (k # rest) s = Inr s1)"
proof (intro conjI impI)
  assume a: "1 \<le> epochs \<and>
    train G T mdl train_loader validation_loader crit opt epochs dev = Inr res"
  then have e: "1 \<le> epochs"
    and t: "train G T mdl train_loader validation_loader crit opt epochs dev = Inr res"
    by simp_all
  from train_Inr_bound [OF t] obtain R where g: "G ''Report'' = Some (Class R)" by blast
  let ?s0 = "\<lparr>model = mdl, report = report_init R epochs, best_loss = 1000000,
            loss_counter = 0, logged = [], history = []\<rparr>"
  have "phase_loop T crit opt R dev
      (\<lambda>ph. case ph of Train \<Rightarrow> train_loader | Valid \<Rightarrow> validation_loader) 0 [Train, Valid] ?s0
      = Inr res"
    using t unfolding train_one_epoch [where G = G and R = R, OF g e] .
  from phase_loop_epoch [OF this] obtain rt rv where
    h: "history res = [rt, rv]" "ph_epoch rt = 0" "ph_phase rt = Train"
       "ph_epoch rv = 0" "ph_phase rv = Valid"
    by auto
  show "map (\<lambda>r. (ph_epoch r, ph_phase r)) (history res) = [(0, Train), (0, Valid)]"
    using h by simp
  show "card (ph_epoch ` set (history res)) \<le> 2"
    using h by simp
next
  assume "phase_loop T' crit' opt' R' dev' ds k [Train, Valid] s = Inr s1 \<and> loss_counter s1 = 1"
  then show "epoch_loop T' crit' opt' R' dev' ds (k # rest) s = Inr s1"
    by (simp add: epoch_loop_step)
qed

theorem train_at_most_two_epochs_witness:
  "(1::int) \<le> 3 \<and>
   train patched_globals stub_api 0 demo_train_feeder demo_valid_feeder
     stub_criterion stub_optimizer 3 () = Inr demo_improved \<and>
   card (ph_epoch ` set (history demo_improved)) \<le> 2 \<and>
   map (\<lambda>r. (ph_epoch r, ph_phase r)) (history demo_improved) = [(0, Train), (0, Valid)] \<and>
   phase_loop stub_api stub_criterion stub_optimizer stub_Report ()
     (demo_feeders stalled_valid_feeder) 1 [Train, Valid] demo_init = Inr (demo_stalled 1) \<and>
   loss_counter (demo_stalled 1) = 1 \<and>
   epoch_loop stub_api stub_criterion stub_optimizer stub_Report ()
     (demo_feeders stalled_valid_feeder) [1, 2] demo_init = Inr (demo_stalled 1)"
  using train_at_most_two_epochs [where epochs = 3 and G = patched_globals and T = stub_api
      and mdl = 0 and train_loader = demo_train_feeder and validation_loader = demo_valid_feeder
      and crit = stub_criterion and opt = stub_optimizer and dev = "()" and res = demo_improved
      and T' = stub_api and crit' = stub_criterion and opt' = stub_optimizer
      and R' = stub_Report and dev' = "()" and ds = "demo_feeders stalled_valid_feeder"
      and k = 1 and s = demo_init and ?s1.0 = "demo_stalled 1" and rest = "[2]"]
    demo_train_improved demo_epoch_stalled
  by (simp add: demo_stalled_def)


text \<open>
  Claim C3. The stall counter is 0 when no epoch has run, and after the single epoch of
  a run it is 0 or 1. One epoch (a training and a validation phase, from any state)
  leaves the counter as it was when the validation epoch loss is strictly less than the
  best loss so far, and adds exactly 1 otherwise. Over any list of epochs the counter
  never decreases.
\<close>

theorem stall_counter_steps:
  "(epochs0 \<le> 0 \<and>
    train G T mdl train_loader validation_loader crit opt epochs0 dev = Inr res0 \<longrightarrow>
      loss_counter res0 = 0) \<and>
   (1 \<le> epochs \<and>
    train G T mdl train_loader validation_loader crit opt epochs dev = Inr res \<longrightarrow>
      loss_counter res = (if epoch_loss (last (history res)) < 1000000 then 0 else 1)) \<and>
   (phase_loop T' crit' opt' R' dev' ds epoch [Train, Valid] s = Inr s1 \<longrightarrow>
      ph_epoch (last (history s1)) = epoch \<and> ph_phase (last (history s1)) = Valid \<and>
      loss_counter s1 =
        (if epoch_loss (last (history s1)) < best_loss s then loss_counter s
         else loss_counter s + 1)) \<and>
   (epoch_loop T' crit' opt' R' dev' ds es s = Inr s2 \<longrightarrow> loss_counter s \<le> loss_counter s2)"
proof (intro conjI impI)
  assume a: "epochs0 \<le> 0 \<and>
    train G T mdl train_loader validation_loader crit opt epochs0 dev = Inr res0"
  then have e: "epochs0 \<le> 0"
    and t: "train G T mdl train_loader validation_loader crit opt epochs0 dev = Inr res0"
    by simp_all
  from train_Inr_bound [OF t] obtain R where g: "G ''Report'' = Some (Class R)" by blast
  show "loss_counter res0 = 0"
    using t unfolding train_no_epoch [where G = G and R = R, OF g e] by auto
next
  assume a: "1 \<le> epochs \<and>
    train G T mdl train_loader validation_loader crit opt epochs dev = Inr res"
  then have e: "1 \<le> epochs"
    and t: "train G T mdl train_loader validation_loader crit opt epochs dev = Inr res"
    by simp_all
  from train_Inr_bound [OF t] obtain R where g: "G ''Report'' = Some (Class R)" by blast
  from phase_loop_epoch [OF t [unfolded train_one_epoch [where G = G and R = R, OF g e]]]
  show "loss_counter res = (if epoch_loss (last (history res)) < 1000000 then 0 else 1)"
    by auto
next
  assume "phase_loop T' crit' opt' R' dev' ds epoch [Train, Valid] s = Inr s1"
  from phase_loop_epoch [OF this] obtain rt rv where
    h: "history s1 = history s @ [rt, rv]" "ph_epoch rv = epoch" "ph_phase rv = Valid"
       "loss_counter s1 =
          (if epoch_loss rv < best_loss s then loss_counter s else loss_counter s + 1)"
    by auto
  from h(1) have l: "last (history s1) = rv" by simp
  show "ph_epoch (last (history s1)) = epoch" using h l by simp
  show "ph_phase (last (history s1)) = Valid" using h l by simp
  show "loss_counter s1 =
        (if epoch_loss (last (history s1)) < best_loss s then loss_counter s
         else loss_counter s + 1)"
    using h(4) l by simp
next
  assume "epoch_loop T' crit' opt' R' dev' ds es s = Inr s2"
  then show "loss_counter s \<le> loss_counter s2" by (rule epoch_loop_mono)
qed

theorem stall_counter_steps_witness:
  "(0::int) \<le> 0 \<and>
   train patched_globals stub_api 0 demo_train_feeder demo_valid_feeder
     stub_criterion stub_optimizer 0 () = Inr demo_init \<and>
   loss_counter demo_init = 0 \<and>
   (1::int) \<le> 3 \<and>
   train patched_globals stub_api 0 demo_train_feeder demo_valid_feeder
     stub_criterion stub_optimizer 3 () = Inr demo_improved \<and>
   epoch_loss (last (history demo_improved)) < 1000000 \<and>
   loss_counter demo_improved = 0 \<and>
   phase_loop stub_api stub_criterion stub_optimizer stub_Report ()
     (demo_feeders stalled_valid_feeder) 1 [Train, Valid] demo_init = Inr (demo_stalled 1) \<and>
   \<not> epoch_loss (last (history (demo_stalled 1))) < best_loss demo_init \<and>
   loss_counter (demo_stalled 1) = loss_counter demo_init + 1 \<and>
   epoch_loop stub_api stub_criterion stub_optimizer stub_Report ()
     (demo_feeders stalled_valid_feeder) [1, 2] demo_init = Inr (demo_stalled 1) \<and>
   loss_counter demo_init \<le> loss_counter (demo_stalled 1)"
  using stall_counter_steps [where G = patched_globals and ?epochs0.0 = 0
      and epochs = 3 and T = stub_api and mdl = 0 and train_loader = demo_train_feeder
      and validation_loader = demo_valid_feeder and crit = stub_criterion
      and opt = stub_optimizer and dev = "()" and ?res0.0 = demo_init and res = demo_improved
      and T' = stub_api and crit' = stub_criterion and opt' = stub_optimizer
      and R' = stub_Report and dev' = "()" and ds = "demo_feeders stalled_valid_feeder"
      and epoch = 1 and s = demo_init and ?s1.0 = "demo_stalled 1" and es = "[1, 2]"
      and ?s2.0 = "demo_stalled 1"]
    demo_train_no_epoch demo_train_improved demo_epoch_stalled demo_loop_stalled
  by (simp add: demo_stalled_def demo_init_def demo_improved_def)




text \<open>
  Claim C6. The best loss is the sentinel 1000000 when no epoch has run. In a run with
  \<open>epochs\<close> at least 1 only epoch 0 is run; when its validation epoch loss is strictly
  below the sentinel, the best loss is that epoch loss and the stall counter stays 0;
  otherwise the best loss stays the sentinel and the counter is 1.
\<close>

theorem best_loss_first_epoch:
  "(epochs0 \<le> 0 \<and>
    train G T mdl train_loader validation_loader crit opt epochs0 dev = Inr res0 \<longrightarrow>
      best_loss res0 = 1000000 \<and> history res0 = []) \<and>
   (1 \<le> epochs \<and>
    train G T mdl train_loader validation_loader crit opt epochs dev = Inr res \<longrightarrow>
      map (\<lambda>r. (ph_epoch r, ph_phase r)) (history res) = [(0, Train), (0, Valid)] \<and>
      (epoch_loss (last (history res)) < 1000000 \<longrightarrow>
         best_loss res = epoch_loss (last (history res)) \<and> loss_counter res = 0) \<and>
      (\<not> epoch_loss (last (history res)) < 1000000 \<longrightarrow>
         best_loss res = 1000000 \<and> loss_counter res = 1))"
proof (intro conjI impI)
  assume a: "epochs0 \<le> 0 \<and>
    train G T mdl train_loader validation_loader crit opt epochs0 dev = Inr res0"
  then have e: "epochs0 \<le> 0"
    and t: "train G T mdl train_loader validation_loader crit opt epochs0 dev = Inr res0"
    by simp_all
  from train_Inr_bound [OF t] obtain R where g: "G ''Report'' = Some (Class R)" by blast
  from t [unfolded train_no_epoch [where G = G and R = R, OF g e]]
  show "best_loss res0 = 1000000" and "history res0 = []" by auto
next
  assume a: "1 \<le> epochs \<and>
    train G T mdl train_loader validation_loader crit opt epochs dev = Inr res"
  then have e: "1 \<le> epochs"
    and t: "train G T mdl train_loader validation_loader crit opt epochs dev = Inr res"
    by simp_all
  from train_Inr_bound [OF t] obtain R where g: "G ''Report'' = Some (Class R)" by blast
  from phase_loop_epoch [OF t [unfolded train_one_epoch [where G = G and R = R, OF g e]]]
  obtain rt rv where
    h: "history res = [rt, rv]" "ph_epoch rt = 0" "ph_phase rt = Train"
       "ph_epoch rv = 0" "ph_phase rv = Valid"
       "best_loss res = (if epoch_loss rv < 1000000 then epoch_loss rv else 1000000)"
       "loss_counter res = (if epoch_loss rv < 1000000 then 0 else 1)"
    by auto
  from h(1) have l: "last (history res) = rv" by simp
  show "map (\<lambda>r. (ph_epoch r, ph_phase r)) (history res) = [(0, Train), (0, Valid)]"
    using h by simp
  {
    assume "epoch_loss (last (history res)) < 1000000"
    then show "best_loss res = epoch_loss (last (history res))" and "loss_counter res = 0"
      using h l by simp_all
  }
  {
    assume "\<not> epoch_loss (last (history res)) < 1000000"
    then show "best_loss res = 1000000" and "loss_counter res = 1"
      using h l by simp_all
  }
qed

theorem best_loss_first_epoch_witness:
  "(0::int) \<le> 0 \<and>
   train patched_globals stub_api 0 demo_train_feeder demo_valid_feeder
     stub_criterion stub_optimizer 0 () = Inr demo_init \<and>
   best_loss demo_init = 1000000 \<and> history demo_init = [] \<and>
   (1::int) \<le> 3 \<and>
   train patched_globals stub_api 0 demo_train_feeder demo_valid_feeder
     stub_criterion stub_optimizer 3 () = Inr demo_improved \<and>
   map (\<lambda>r. (ph_epoch r, ph_phase r)) (history demo_improved) = [(0, Train), (0, Valid)] \<and>
   epoch_loss (last (history demo_improved)) = 8 \<and>
   epoch_loss (last (history demo_improved)) < 1000000 \<and>
   best_loss demo_improved = 8 \<and> loss_counter demo_improved = 0 \<and>
   train patched_globals stub_api 0 demo_train_feeder stalled_valid_feeder
     stub_criterion stub_optimizer 3 () = Inr (demo_stalled 0) \<and>
   \<not> epoch_loss (last (history (demo_stalled 0))) < 1000000 \<and>
   best_loss (demo_stalled 0) = 1000000 \<and> loss_counter (demo_stalled 0) = 1"
  using best_loss_first_epoch [where G = patched_globals
      and T = stub_api and mdl = 0 and train_loader = demo_train_feeder
      and validation_loader = demo_valid_feeder and crit = stub_criterion
      and opt = stub_optimizer and ?epochs0.0 = 0 and epochs = 3 and dev = "()"
      and ?res0.0 = demo_init and res = demo_improved]
    best_loss_first_epoch [where G = patched_globals
      and T = stub_api and mdl = 0 and train_loader = demo_train_feeder
      and validation_loader = stalled_valid_feeder and crit = stub_criterion
      and opt = stub_optimizer and epochs = 3 and dev = "()"
      and res = "demo_stalled 0"]
    demo_train_no_epoch demo_train_improved demo_train_stalled
  by (simp add: demo_stalled_def demo_init_def demo_improved_def)

subsection \<open>Frozen parameters\<close>




subsection \<open>\<open>test\<close>\<close>

lemma weighted_loss_Cons: "weighted_loss ((l, n, c) # bs) = l * real n + weighted_loss bs"
  by (simp add: weighted_loss_def)

lemma correct_count_Cons: "correct_count ((l, n, c) # bs) = c + correct_count bs"
  by (simp add: correct_count_def)

lemma test_loop_observations:
  "observations T crit dev m feeder = Inr obs \<Longrightarrow>
   length obs = length feeder \<and>
   (\<exists>m'. test_loop T crit dev feeder (m, rl, rc) =
          Inr (m', rl + weighted_loss obs, rc + correct_count obs))"
proof (induction feeder arbitrary: m rl rc obs)
  case Nil
  then show ?case by (simp add: weighted_loss_Nil correct_count_Nil)
next
  case (Cons b feeder)
  obtain x y where b: "b = (x, y)" by (cases b)
  from Cons.prems b obtain out m1 loss obs1 where
    s: "model_call T m (inputs_to T x dev) = Inr (out, m1)"
       "crit out (labels_to T y dev) = Inr loss"
       "observations T crit dev m1 feeder = Inr obs1"
       "obs = (loss, size0 T (inputs_to T x dev), num_correct T out (labels_to T y dev)) # obs1"
    by (auto split: sum.splits)
  from Cons.IH [OF s(3), of "rl + loss * real (size0 T (inputs_to T x dev))"
      "rc + num_correct T out (labels_to T y dev)"]
  show ?case
    using s b by (auto simp: Let_def weighted_loss_Cons correct_count_Cons add.assoc)
qed

lemma spec_test_observations:
  "observations stub_api stub_criterion () (model_eval stub_api 0) spec_test_feeder =
     Inr [(1 / 10, 8, 8), (2 / 10, 8, 8), (3 / 10, 8, 8)]"
  by (simp add: stub_api_def stub_criterion_def spec_test_feeder_def)

text \<open>
  Claim C2, as amended. When \<open>test\<close> reads from its feeder three batches with losses
  0.1, 0.2 and 0.3, eight samples each and eight correct predictions each, it reports
  the total loss (0.1 + 0.2 + 0.3) * 8 / 3 and the total accuracy 8: the 24 correct
  predictions divided by the 3 batches, not by the 24 samples.
\<close>

theorem test_reports_per_batch:
  "observations T crit dev (model_eval T mdl) test_loader =
     Inr [(1 / 10, 8, 8), (2 / 10, 8, 8), (3 / 10, 8, 8)] \<Longrightarrow>
   test T mdl test_loader crit dev =
     Inr \<lparr>total_loss = (1 / 10 + 2 / 10 + 3 / 10) * 8 / 3, total_acc = 8\<rparr>"
proof -
  assume a: "observations T crit dev (model_eval T mdl) test_loader =
     Inr [(1 / 10, 8, 8), (2 / 10, 8, 8), (3 / 10, 8, 8)]"
  from test_loop_observations [OF a, of 0 0] obtain m' where
    l: "length test_loader = 3"
    and t: "test_loop T crit dev test_loader (model_eval T mdl, 0, 0) =
        Inr (m', 0 + weighted_loss [(1 / 10, 8, 8), (2 / 10, 8, 8), (3 / 10, 8, 8)],
             0 + correct_count [(1 / 10, 8, 8), (2 / 10, 8, 8), (3 / 10, 8, 8)])"
    by auto
  show ?thesis
    unfolding test_def t using l by (simp add: weighted_loss_def correct_count_def)
qed

theorem test_reports_per_batch_witness:
  "observations stub_api stub_criterion () (model_eval stub_api 0) spec_test_feeder =
     Inr [(1 / 10, 8, 8), (2 / 10, 8, 8), (3 / 10, 8, 8)] \<and>
   test stub_api 0 spec_test_feeder stub_criterion () =
     Inr \<lparr>total_loss = (1 / 10 + 2 / 10 + 3 / 10) * 8 / 3, total_acc = 8\<rparr>"
  using test_reports_per_batch [OF spec_test_observations] spec_test_observations
  by simp

text \<open>
  The claim as stated fails on that feeder: the reported accuracy is 8, not 1.
\<close>

theorem test_accuracy_counterexample:
  "length spec_test_feeder = 3 \<and>
   map fst spec_test_feeder = [(1 / 10, 8, 8), (2 / 10, 8, 8), (3 / 10, 8, 8)] \<and>
   test stub_api 0 spec_test_feeder stub_criterion () =
     Inr \<lparr>total_loss = (1 / 10 + 2 / 10 + 3 / 10) * 8 / 3, total_acc = 8\<rparr> \<and>
   test stub_api 0 spec_test_feeder stub_criterion () \<noteq>
     Inr \<lparr>total_loss = (1 / 10 + 2 / 10 + 3 / 10) * 8 / 3, total_acc = 1\<rparr>"
  by (simp add: test_def stub_api_def stub_criterion_def spec_test_feeder_def)

subsection \<open>\<open>create_data_loaders\<close>\<close>



subsection \<open>\<open>net\<close>\<close>

text \<open>
  Claim C8, as amended. The head declares a linear layer with 32 outputs and then a
  final linear layer for 128 inputs. The head is a sequential chain, so the final layer
  is applied to the 32 features that leave the 32-unit layer and its rectifier, not to
  the output of the earlier 128-unit layer: the 32-unit layer is not bypassed, and a
  forward pass through the head raises a shape error at the final layer.
\<close>

theorem head_final_layer_fed_32:
  "fc resnet50 = Linear n k g \<Longrightarrow>
   (\<exists>mdl. net resnet50 = Inr mdl \<and>
      fc mdl = Sequential [Linear n 128 True, ReLU, Linear 128 32 True, ReLU, Linear 128 5 True] \<and>
      forward (Sequential [Linear n 128 True, ReLU, Linear 128 32 True, ReLU]) n = Inr 32 \<and>
      forward (fc mdl) n = Inl (ShapeError 32 128))"
  by (simp add: net_def Let_def nn_Linear_def)

theorem head_final_layer_fed_32_witness:
  "fc resnet50_pretrained = Linear 2048 1000 True \<and>
   net resnet50_pretrained =
     Inr \<lparr>backbone_requires_grad = [False, False, False],
          fc = Sequential [Linear 2048 128 True, ReLU, Linear 128 32 True, ReLU,
                           Linear 128 5 True]\<rparr> \<and>
   forward (Sequential [Linear 2048 128 True, ReLU, Linear 128 32 True, ReLU]) 2048 = Inr 32 \<and>
   forward (Sequential [Linear 2048 128 True, ReLU, Linear 128 32 True, ReLU,
                        Linear 128 5 True]) 2048 = Inl (ShapeError 32 128)"
  using head_final_layer_fed_32 [of resnet50_pretrained 2048 1000 True]
  by (simp add: resnet50_pretrained_def net_def Let_def nn_Linear_def)

text \<open>
  The claim as stated has the final layer read the 128 features of the first layer, which
  would give 5 outputs; the head built from the pretrained network gives none.
\<close>

theorem head_forward_counterexample:
  "net resnet50_pretrained =
     Inr \<lparr>backbone_requires_grad = [False, False, False],
          fc = Sequential [Linear 2048 128 True, ReLU, Linear 128 32 True, ReLU,
                           Linear 128 5 True]\<rparr> \<and>
   forward (Sequential [Linear 2048 128 True, ReLU, Linear 128 32 True, ReLU,
                        Linear 128 5 True]) 2048 = Inl (ShapeError 32 128) \<and>
   forward (Sequential [Linear 2048 128 True, ReLU, Linear 128 32 True, ReLU,
                        Linear 128 5 True]) 2048 \<noteq> Inr 5"
  by (simp add: net_def Let_def nn_Linear_def resnet50_pretrained_def)

subsection \<open>Argument parsing\<close>

text \<open>
  Claim C9, as amended. The default of \<open>--output_dir\<close> is an environment lookup whose
  key is the path string \<open>TrainedModels/model.pth\<close>, made when the flag is declared.
  When no variable of that name is set, parsing raises \<open>KeyError\<close> whether or not the
  flag is given; when it is set, omitting the flag yields the variable's value and
  giving the flag yields the given value.
\<close>

theorem output_dir_default_is_environment_lookup:
  "(environ1 ''dogImages'' = Some d1 \<and> environ1 ''TrainedModels/model.pth'' = None \<longrightarrow>
      parse_args environ1 cl1 = Inl (KeyError ''TrainedModels/model.pth'')) \<and>
   (environ2 ''dogImages'' = Some d2 \<and> environ2 ''TrainedModels/model.pth'' = Some p2 \<and>
    cli_output_dir cl2 = None \<longrightarrow>
      parse_args environ2 cl2 =
        Inr \<lparr>arg_learning_rate = cli_learning_rate cl2, arg_batch_size = cli_batch_size cl2,
             arg_epochs = cli_epochs cl2,
             arg_data = (case cli_data cl2 of None \<Rightarrow> d2 | Some v \<Rightarrow> v),
             arg_output_dir = p2\<rparr>) \<and>
   (environ3 ''dogImages'' = Some d3 \<and> environ3 ''TrainedModels/model.pth'' = Some p3 \<and>
    cli_output_dir cl3 = Some v3 \<longrightarrow>
      parse_args environ3 cl3 =
        Inr \<lparr>arg_learning_rate = cli_learning_rate cl3, arg_batch_size = cli_batch_size cl3,
             arg_epochs = cli_epochs cl3,
             arg_data = (case cli_data cl3 of None \<Rightarrow> d3 | Some v \<Rightarrow> v),
             arg_output_dir = v3\<rparr>)"
  by (simp add: parse_args_def environ_get_def)

theorem output_dir_default_is_environment_lookup_witness:
  "[''dogImages'' \<mapsto> ''/data''] ''dogImages'' = Some ''/data'' \<and>
   [''dogImages'' \<mapsto> ''/data''] ''TrainedModels/model.pth'' = None \<and>
   parse_args [''dogImages'' \<mapsto> ''/data''] (no_flags\<lparr>cli_output_dir := Some ''/tmp/m.pth''\<rparr>) =
     Inl (KeyError ''TrainedModels/model.pth'') \<and>
   demo_environ ''dogImages'' = Some ''/data'' \<and>
   demo_environ ''TrainedModels/model.pth'' = Some ''/out/model.pth'' \<and>
   cli_output_dir no_flags = None \<and>
   parse_args demo_environ no_flags =
     Inr \<lparr>arg_learning_rate = None, arg_batch_size = None, arg_epochs = None,
          arg_data = ''/data'', arg_output_dir = ''/out/model.pth''\<rparr> \<and>
   cli_output_dir (no_flags\<lparr>cli_output_dir := Some ''/tmp/m.pth''\<rparr>) = Some ''/tmp/m.pth'' \<and>
   parse_args demo_environ (no_flags\<lparr>cli_output_dir := Some ''/tmp/m.pth''\<rparr>) =
     Inr \<lparr>arg_learning_rate = None, arg_batch_size = None, arg_epochs = None,
          arg_data = ''/data'', arg_output_dir = ''/tmp/m.pth''\<rparr>"
  using output_dir_default_is_environment_lookup
    [where ?environ1.0 = "[''dogImages'' \<mapsto> ''/data'']" and ?d1.0 = "''/data''"
       and ?cl1.0 = "no_flags\<lparr>cli_output_dir := Some ''/tmp/m.pth''\<rparr>"
       and ?environ2.0 = demo_environ and ?d2.0 = "''/data''" and ?p2.0 = "''/out/model.pth''"
       and ?cl2.0 = no_flags
       and ?environ3.0 = demo_environ and ?d3.0 = "''/data''" and ?p3.0 = "''/out/model.pth''"
       and ?cl3.0 = "no_flags\<lparr>cli_output_dir := Some ''/tmp/m.pth''\<rparr>"
       and ?v3.0 = "''/tmp/m.pth''"]
  by (simp add: demo_environ_def no_flags_def)

text \<open>
  The claim as stated fails in an environment that sets the variable: omitting the flag
  yields the value of the variable.
\<close>

theorem output_dir_counterexample:
  "cli_output_dir no_flags = None \<and>
   demo_environ ''TrainedModels/model.pth'' = Some ''/out/model.pth'' \<and>
   parse_args demo_environ no_flags =
     Inr \<lparr>arg_learning_rate = None, arg_batch_size = None, arg_epochs = None,
          arg_data = ''/data'', arg_output_dir = ''/out/model.pth''\<rparr>"
  by (simp add: parse_args_def environ_get_def demo_environ_def no_flags_def)

subsection \<open>The missing name\<close>

text \<open>
  Claim C10. \<open>Report\<close> is not among the names the file defines or imports, so in the
  module as written every call of \<open>train\<close> raises \<open>NameError\<close> at line 27, whatever
  its arguments and whatever the model, the loss function and the optimizer would do:
  no phase is run, no batch is read and no parameter is updated.
\<close>

theorem train_raises_NameError:
  "(module_globals :: 'l namespace) ''Report'' = None \<and>
   train (module_globals :: 'l namespace) T mdl train_loader validation_loader crit opt epochs dev
     = Inl (NameError ''Report'')"
  by (simp add: train_def call_global_def module_globals_def)

end
